theory Spec2Isabelle
  imports Complex_Main
begin

section \<open>Values received from the API\<close>

text \<open>
  \<open>safeFetch\<close> returns the result of \<open>response.json()\<close>, so every value the three
  fetch functions inspect is a parsed JSON value. An object is kept as the list of its
  own properties in the order \<open>Object.keys\<close> enumerates them. Numbers are rationals:
  JSON has neither NaN nor infinities, and the rounding of IEEE doubles is not modelled.
  The result of reading a property is a \<open>json option\<close>, with \<open>None\<close> for
  \<open>undefined\<close>.
\<close>

datatype json =
    JNull
  | JBool bool
  | JNum rat
  | JStr string
  | JArr "json list"
  | JObj "(string \<times> json) list"

datatype js_error = TypeError | FetchError | ExtractError

text \<open>JavaScript truthiness of a JSON value, and of a possibly undefined one.\<close>

fun truthy :: "json \<Rightarrow> bool" where
  "truthy JNull = False"
| "truthy (JBool b) = b"
| "truthy (JNum n) = (n \<noteq> 0)"
| "truthy (JStr s) = (s \<noteq> [])"
| "truthy (JArr xs) = True"
| "truthy (JObj kvs) = True"

fun truthy_opt :: "json option \<Rightarrow> bool" where
  "truthy_opt None = False"
| "truthy_opt (Some v) = truthy v"

text \<open>The template literal \<open>`${index}`\<close>: a natural number in decimal.\<close>

definition digit_char :: "nat \<Rightarrow> char" where
  "digit_char d = char_of (48 + d)"

fun string_of_nat :: "nat \<Rightarrow> string" where
  "string_of_nat n =
     (if n < 10 then [digit_char n]
      else string_of_nat (n div 10) @ [digit_char (n mod 10)])"

declare string_of_nat.simps [simp del]

text \<open>
  The own enumerable properties of a value, as \<open>Object.keys\<close> lists them: the entries
  of an object, the indices of an array, the indices of a string's code units, and
  nothing for the other primitives.
\<close>

fun own_entries :: "json \<Rightarrow> (string \<times> json) list" where
  "own_entries (JObj kvs) = kvs"
| "own_entries (JArr xs) = zip (map string_of_nat [0..<length xs]) xs"
| "own_entries (JStr s) = zip (map string_of_nat [0..<length s]) (map (\<lambda>c. JStr [c]) s)"
| "own_entries _ = []"

definition object_keys :: "json \<Rightarrow> string list" where
  "object_keys v = map fst (own_entries v)"

text \<open>
  Reading \<open>v.k\<close> or \<open>v[k]\<close> from a value that is neither \<open>null\<close> nor
  \<open>undefined\<close>: it never throws, and yields \<open>undefined\<close> where the property is
  absent. None of the names the code reads is a prototype property of a JSON value.
  Reading from \<open>null\<close> throws; the callers below either guard the receiver by its
  truthiness first or model the throw.
\<close>

definition get_prop :: "json \<Rightarrow> string \<Rightarrow> json option" where
  "get_prop v k = map_of (own_entries v) k"

fun get_prop_opt :: "json option \<Rightarrow> string \<Rightarrow> json option" where
  "get_prop_opt None k = None"
| "get_prop_opt (Some v) k = get_prop v k"

fun is_array :: "json option \<Rightarrow> bool" where
  "is_array (Some (JArr xs)) = True"
| "is_array _ = False"

fun is_number :: "json option \<Rightarrow> bool" where
  "is_number (Some (JNum n)) = True"
| "is_number _ = False"

fun is_string :: "json option \<Rightarrow> bool" where
  "is_string (Some (JStr s)) = True"
| "is_string _ = False"

text \<open>\<open>typeof v === 'object'\<close> for a truthy value: objects and arrays.\<close>

fun is_object :: "json \<Rightarrow> bool" where
  "is_object (JObj kvs) = True"
| "is_object (JArr xs) = True"
| "is_object JNull = True"
| "is_object _ = False"

text \<open>The operator \<open>a || b\<close> with a JSON value as its default.\<close>

fun js_or :: "json option \<Rightarrow> json \<Rightarrow> json" where
  "js_or None d = d"
| "js_or (Some v) d = (if truthy v then v else d)"

section \<open>GeoJSON features\<close>

datatype geometry_type = Point | Polygon

record geometry =
  gtype :: geometry_type
  coordinates :: json

text \<open>
  The \<open>properties\<close> of a feature hold whatever value the response carried, so each
  field is a JSON value. The field names carry a prefix for the feature kind.
\<close>

record cluster_props =
  c_id :: json
  c_size :: json
  c_rating :: json
  c_categories :: json

record cluster_feature =
  cgeometry :: geometry
  cproperties :: cluster_props

section \<open>getBusinessClusters\<close>

text \<open>The outcome of \<open>await safeFetch(url)\<close>: it throws, or returns the parsed body.\<close>

datatype fetch_outcome = Throws js_error | Response json

definition cluster_hasExpectedStructure :: "json \<Rightarrow> bool" where
  "cluster_hasExpectedStructure cluster \<longleftrightarrow>
     truthy cluster \<and>
     is_string (get_prop cluster ''cluster_id'') \<and>
     is_number (get_prop cluster ''size'') \<and>
     is_number (get_prop cluster ''avg_rating'') \<and>
     is_array (get_prop cluster ''categories'') \<and>
     truthy_opt (get_prop cluster ''center'')"

text \<open>The fallback structure around Tampa for a malformed cluster.\<close>

definition cluster_placeholder :: "nat \<Rightarrow> cluster_feature" where
  "cluster_placeholder index =
     \<lparr> cgeometry = \<lparr> gtype = Point,
          coordinates = JArr [JNum (- 8245 / 100 + of_nat index * (1 / 100)),
                              JNum (2795 / 100 + of_nat index * (1 / 100))] \<rparr>,
       cproperties = \<lparr> c_id = JStr (''cluster-'' @ string_of_nat index),
          c_size = JNum 5, c_rating = JNum 3, c_categories = JArr [JStr ''Restaurant''] \<rparr> \<rparr>"

definition default_coordinates :: json where
  "default_coordinates = JArr [JNum (- 8245 / 100), JNum (2795 / 100)]"

text \<open>
  The chain that normalises \<open>cluster.center\<close>, which is truthy here. The first branch
  takes the \<open>coordinates\<close> array as it is.
\<close>

definition center_coordinates :: "json \<Rightarrow> json" where
  "center_coordinates center =
     (if truthy_opt (get_prop center ''coordinates'') \<and> is_array (get_prop center ''coordinates'')
      then the (get_prop center ''coordinates'')
      else if is_number (get_prop center ''x'') \<and> is_number (get_prop center ''y'')
      then JArr [the (get_prop center ''x''), the (get_prop center ''y'')]
      else if is_number (get_prop center ''longitude'') \<and> is_number (get_prop center ''latitude'')
      then JArr [the (get_prop center ''longitude''), the (get_prop center ''latitude'')]
      else if is_object center \<and> length (object_keys center) = 2
      then (let keys = object_keys center;
                vals = map (\<lambda>k. get_prop center k) keys
            in if is_number (vals ! 0) \<and> is_number (vals ! 1)
               then JArr [the (vals ! 0), the (vals ! 1)]
               else default_coordinates)
      else default_coordinates)"

text \<open>
  The callback of \<open>data.map\<close>. Its \<open>try\<close> body reads properties of truthy values
  only, so the \<open>catch\<close> that returns \<open>null\<close> is never entered: the result is always a
  feature. \<open>None\<close> stands for that \<open>null\<close>.
\<close>

definition cluster_to_feature :: "nat \<Rightarrow> json \<Rightarrow> cluster_feature option" where
  "cluster_to_feature index cluster =
     (if \<not> cluster_hasExpectedStructure cluster then Some (cluster_placeholder index)
      else Some
        \<lparr> cgeometry = \<lparr> gtype = Point,
             coordinates = center_coordinates (the (get_prop cluster ''center'')) \<rparr>,
          cproperties = \<lparr>
             c_id = js_or (get_prop cluster ''cluster_id'') (JStr (''cluster-'' @ string_of_nat index)),
             c_size = js_or (get_prop cluster ''size'') (JNum 5),
             c_rating = js_or (get_prop cluster ''avg_rating'') (JNum 3),
             c_categories = js_or (get_prop cluster ''categories'') (JArr []) \<rparr> \<rparr>)"

text \<open>\<open>data.map((x, index) => f).filter(feature => feature !== null)\<close>.\<close>

definition map_filter_indexed :: "(nat \<Rightarrow> json \<Rightarrow> 'a option) \<Rightarrow> json list \<Rightarrow> 'a list" where
  "map_filter_indexed f items = List.map_filter (\<lambda>(i, x). f i x) (enumerate 0 items)"

text \<open>
  The request a fetch function sends: the endpoint with its one query parameter. The
  network is a function from requests to outcomes.
\<close>

datatype request =
    DensityGridReq rat
  | BusinessClustersReq rat
  | NeighborhoodMetricsReq rat

text \<open>
  A fetch function returns \<open>Inr\<close> of its feature list, or \<open>Inl\<close> of an error that
  escapes to the caller. The outer \<open>try\<close> encloses the whole body and its \<open>catch\<close>
  returns the empty array.
\<close>

definition clusters_body :: "fetch_outcome \<Rightarrow> js_error + cluster_feature list" where
  "clusters_body out =
     (case out of
        Throws e \<Rightarrow> Inl e
      | Response data \<Rightarrow>
          (case data of
             JArr items \<Rightarrow>
               (if items = [] then Inr []
                else Inr (map_filter_indexed cluster_to_feature items))
           | _ \<Rightarrow> Inr []))"

definition getBusinessClusters ::
  "(request \<Rightarrow> fetch_outcome) \<Rightarrow> rat \<Rightarrow> js_error + cluster_feature list" where
  "getBusinessClusters net minSize =
     (case clusters_body (net (BusinessClustersReq minSize)) of
        Inl e \<Rightarrow> Inr []
      | Inr features \<Rightarrow> Inr features)"

section \<open>getDensityGrid\<close>

record density_props =
  d_id :: json
  d_business_count :: json
  d_avg_rating :: json
  d_service_diversity :: json
  d_service_types :: json

record density_feature =
  dgeometry :: geometry
  dproperties :: density_props

definition density_hasExpectedStructure :: "json \<Rightarrow> bool" where
  "density_hasExpectedStructure item \<longleftrightarrow>
     truthy item \<and>
     truthy_opt (get_prop item ''coordinates'') \<and>
     truthy_opt (get_prop_opt (get_prop item ''coordinates'') ''coordinates'') \<and>
     is_array (get_prop_opt (get_prop item ''coordinates'') ''coordinates'') \<and>
     truthy_opt (get_prop item ''metrics'')"

definition point :: "rat \<Rightarrow> rat \<Rightarrow> json" where
  "point x y = JArr [JNum x, JNum y]"

text \<open>The fallback structure centered in Tampa for a malformed grid cell.\<close>

definition density_placeholder :: "nat \<Rightarrow> density_feature" where
  "density_placeholder index =
     (let x = - 8245 / 100 + of_nat index * (1 / 1000);
          y = 2795 / 100 + of_nat index * (1 / 1000)
      in \<lparr> dgeometry = \<lparr> gtype = Polygon,
               coordinates = JArr [JArr [point x y,
                                         point (x + 1 / 100) y,
                                         point (x + 1 / 100) (y + 1 / 100),
                                         point x (y + 1 / 100),
                                         point x y]] \<rparr>,
            dproperties = \<lparr> d_id = JStr (''grid-'' @ string_of_nat index),
               d_business_count = JNum 0, d_avg_rating = JNum 0,
               d_service_diversity = JNum 0, d_service_types = JArr [] \<rparr> \<rparr>)"

text \<open>
  The callback of \<open>data.map\<close>; as for clusters, every read in its \<open>try\<close> body is on a
  truthy value, and \<open>None\<close> is the \<open>null\<close> of the \<open>catch\<close>.
\<close>

definition density_to_feature :: "nat \<Rightarrow> json \<Rightarrow> density_feature option" where
  "density_to_feature index item =
     (if \<not> density_hasExpectedStructure item then Some (density_placeholder index)
      else
        (let metrics = get_prop item ''metrics'' in
         Some
          \<lparr> dgeometry = \<lparr> gtype = Polygon,
               coordinates = the (get_prop_opt (get_prop item ''coordinates'') ''coordinates'') \<rparr>,
            dproperties = \<lparr>
               d_id = js_or (get_prop item ''grid_id'') (JStr (''grid-'' @ string_of_nat index)),
               d_business_count = js_or (get_prop_opt metrics ''business_count'') (JNum 0),
               d_avg_rating = js_or (get_prop_opt metrics ''avg_rating'') (JNum 0),
               d_service_diversity = js_or (get_prop_opt metrics ''service_diversity'') (JNum 0),
               d_service_types = js_or (get_prop_opt metrics ''service_types'') (JArr []) \<rparr> \<rparr>))"

definition density_body :: "fetch_outcome \<Rightarrow> js_error + density_feature list" where
  "density_body out =
     (case out of
        Throws e \<Rightarrow> Inl e
      | Response data \<Rightarrow>
          (case data of
             JArr items \<Rightarrow>
               (if items = [] then Inr []
                else Inr (map_filter_indexed density_to_feature items))
           | _ \<Rightarrow> Inr []))"

definition getDensityGrid ::
  "(request \<Rightarrow> fetch_outcome) \<Rightarrow> rat \<Rightarrow> js_error + density_feature list" where
  "getDensityGrid net minRating =
     (case density_body (net (DensityGridReq minRating)) of
        Inl e \<Rightarrow> Inr []
      | Inr features \<Rightarrow> Inr features)"

section \<open>getNeighborhoodMetrics\<close>

text \<open>
  The operators \<open>-\<close> and \<open>+\<close> first convert an operand that is an object to a
  primitive, and that conversion throws a TypeError when neither \<open>valueOf\<close> nor
  \<open>toString\<close> yields one. The \<open>valueOf\<close> of a parsed object never does: it is the
  inherited one, which returns the object, or an own property, which is not callable.
  So an object converts when it has no own property \<open>toString\<close> (the inherited one
  then applies), and an array converts, through \<open>join\<close>, when each of its elements
  does. Primitives and \<open>undefined\<close> always convert.
\<close>

fun coercible :: "json \<Rightarrow> bool" where
  "coercible (JObj kvs) = (map_of kvs ''toString'' = None)"
| "coercible (JArr xs) = list_all coercible xs"
| "coercible _ = True"

fun coercible_opt :: "json option \<Rightarrow> bool" where
  "coercible_opt None = True"
| "coercible_opt (Some v) = coercible v"

text \<open>
  A coordinate of a polygon built around a centre. Where the operand is a number the
  arithmetic is carried out. On another operand that converts, JavaScript coerces (or
  concatenates) and the expression is kept unevaluated; on one that does not convert,
  the operator throws.
\<close>

datatype coord =
    CNum rat
  | CMinus "json option" rat
  | CPlus "json option" rat

fun js_minus :: "json option \<Rightarrow> rat \<Rightarrow> js_error + coord" where
  "js_minus (Some (JNum x)) r = Inr (CNum (x - r))"
| "js_minus v r = (if coercible_opt v then Inr (CMinus v r) else Inl TypeError)"

fun js_plus :: "json option \<Rightarrow> rat \<Rightarrow> js_error + coord" where
  "js_plus (Some (JNum x)) r = Inr (CNum (x + r))"
| "js_plus v r = (if coercible_opt v then Inr (CPlus v r) else Inl TypeError)"

text \<open>
  The \<open>coordinates\<close> of a neighborhood polygon: taken from the response as they are,
  or one ring of points built by the code.
\<close>

datatype ncoords =
    Verbatim json
  | Ring "(coord \<times> coord) list"

text \<open>
  The score: a value of the response, or \<open>Math.round((a + b + c) / 3)\<close> of the three
  component scores, which is kept unevaluated (its value in double arithmetic is not
  modelled).
\<close>

datatype score_val =
    ScoreJson json
  | ScoreMean json json json

record neighborhood_props =
  n_name :: json
  n_businesses :: json
  n_rating :: json
  n_diversity :: json
  n_score :: score_val

record neighborhood_feature =
  ngtype :: geometry_type
  ncoordinates :: ncoords
  nproperties :: neighborhood_props

text \<open>\<open>xs[i]\<close> on an array: \<open>undefined\<close> out of range.\<close>

definition nth_opt :: "'a list \<Rightarrow> nat \<Rightarrow> 'a option" where
  "nth_opt xs i = (if i < length xs then Some (xs ! i) else None)"

fun elements :: "json option \<Rightarrow> json list" where
  "elements (Some (JArr xs)) = xs"
| "elements _ = []"

text \<open>
  The square of half-width \<open>size\<close> around a centre point, as a closed ring. It is
  built from \<open>centerPoint[0] - size\<close>, \<open>centerPoint[1] - size\<close>,
  \<open>centerPoint[0] + size\<close> and \<open>centerPoint[1] + size\<close>, and throws when one of them
  does.
\<close>

definition square_around :: "json option \<times> json option \<Rightarrow> rat \<Rightarrow> js_error + ncoords" where
  "square_around centerPoint sz =
     (case js_minus (fst centerPoint) sz of
        Inl e \<Rightarrow> Inl e
      | Inr x0 \<Rightarrow>
     (case js_minus (snd centerPoint) sz of
        Inl e \<Rightarrow> Inl e
      | Inr y0 \<Rightarrow>
     (case js_plus (fst centerPoint) sz of
        Inl e \<Rightarrow> Inl e
      | Inr x1 \<Rightarrow>
     (case js_plus (snd centerPoint) sz of
        Inl e \<Rightarrow> Inl e
      | Inr y1 \<Rightarrow> Inr (Ring [(x0, y0), (x1, y0), (x1, y1), (x0, y1), (x0, y0)])))))"

definition index_lat :: "nat \<Rightarrow> rat" where
  "index_lat index = 2794 / 100 + of_nat (index mod 5) * (2 / 100)"

definition index_lng :: "nat \<Rightarrow> rat" where
  "index_lng index = - 8248 / 100 + of_nat (index div 5) * (3 / 100)"

text \<open>
  The inner \<open>try\<close> that guesses a centre from an object with two numeric properties;
  its \<open>throw\<close> is \<open>Inl\<close>.
\<close>

definition guess_center :: "json \<Rightarrow> js_error + (json option \<times> json option)" where
  "guess_center center =
     (let keys = object_keys center in
      if length keys = 2 \<and> is_number (get_prop center (keys ! 0))
                          \<and> is_number (get_prop center (keys ! 1))
      then Inr (get_prop center (keys ! 0), get_prop center (keys ! 1))
      else Inl ExtractError)"

text \<open>The centre point of a truthy \<open>center\<close> value.\<close>

definition center_point :: "nat \<Rightarrow> json \<Rightarrow> json option \<times> json option" where
  "center_point index center =
     (if is_array (Some center)
      then (nth_opt (elements (Some center)) 0, nth_opt (elements (Some center)) 1)
      else if truthy_opt (get_prop center ''coordinates'') \<and> is_array (get_prop center ''coordinates'')
      then (nth_opt (elements (get_prop center ''coordinates'')) 0,
            nth_opt (elements (get_prop center ''coordinates'')) 1)
      else if is_number (get_prop center ''x'') \<and> is_number (get_prop center ''y'')
      then (get_prop center ''x'', get_prop center ''y'')
      else if is_number (get_prop center ''longitude'') \<and> is_number (get_prop center ''latitude'')
      then (get_prop center ''longitude'', get_prop center ''latitude'')
      else (case guess_center center of
              Inr p \<Rightarrow> p
            | Inl e \<Rightarrow> (Some (JNum (index_lng index)), Some (JNum (index_lat index)))))"

text \<open>
  Which of the geometry branches a record that is not \<open>null\<close> takes: the third one
  builds the polygon around \<open>neighborhood_center || center\<close>.
\<close>

definition has_geometry :: "json \<Rightarrow> bool" where
  "has_geometry neighborhood \<longleftrightarrow>
     truthy_opt (get_prop neighborhood ''geometry'') \<and>
     truthy_opt (get_prop_opt (get_prop neighborhood ''geometry'') ''coordinates'')"

definition has_area_boundary :: "json \<Rightarrow> bool" where
  "has_area_boundary neighborhood \<longleftrightarrow>
     truthy_opt (get_prop neighborhood ''area_boundary'') \<and>
     truthy_opt (get_prop_opt (get_prop neighborhood ''area_boundary'') ''coordinates'')"

definition has_center :: "json \<Rightarrow> bool" where
  "has_center neighborhood \<longleftrightarrow>
     truthy_opt (get_prop neighborhood ''neighborhood_center'') \<or>
     truthy_opt (get_prop neighborhood ''center'')"

definition the_center :: "json \<Rightarrow> json" where
  "the_center neighborhood =
     (if truthy_opt (get_prop neighborhood ''neighborhood_center'')
      then the (get_prop neighborhood ''neighborhood_center'')
      else the (get_prop neighborhood ''center''))"

text \<open>The geometry of a record that is not \<open>null\<close>.\<close>

definition neighborhood_coordinates :: "nat \<Rightarrow> json \<Rightarrow> js_error + ncoords" where
  "neighborhood_coordinates index neighborhood =
     (if has_geometry neighborhood
      then Inr (Verbatim (the (get_prop_opt (get_prop neighborhood ''geometry'') ''coordinates'')))
      else if has_area_boundary neighborhood
      then Inr (Verbatim
                 (the (get_prop_opt (get_prop neighborhood ''area_boundary'') ''coordinates'')))
      else if has_center neighborhood
      then square_around (center_point index (the_center neighborhood)) (1 / 100)
      else (let lat = index_lat index; lng = index_lng index
            in Inr (Ring [(CNum lng, CNum lat),
                          (CNum (lng + 2 / 100), CNum lat),
                          (CNum (lng + 2 / 100), CNum (lat + 2 / 100)),
                          (CNum lng, CNum (lat + 2 / 100)),
                          (CNum lng, CNum lat)])))"

text \<open>
  The sum \<open>a + b + c\<close> converts each of its three operands to a primitive, and throws
  when one of them does not convert.
\<close>

definition mean_score :: "json \<Rightarrow> json \<Rightarrow> json \<Rightarrow> js_error + score_val" where
  "mean_score a b c =
     (if coercible a \<and> coercible b \<and> coercible c then Inr (ScoreMean a b c)
      else Inl TypeError)"

text \<open>The three operands of that sum.\<close>

definition score_operands :: "json \<Rightarrow> json list" where
  "score_operands neighborhood =
     [js_or (get_prop neighborhood ''density_score'') (JNum 0),
      js_or (get_prop neighborhood ''accessibility_score'') (JNum 0),
      js_or (get_prop neighborhood ''service_distribution_score'') (JNum 0)]"

text \<open>The sum is evaluated only when both \<open>score\<close> and \<open>neighborhood_score\<close> are falsy.\<close>

definition has_score :: "json \<Rightarrow> bool" where
  "has_score neighborhood \<longleftrightarrow>
     truthy_opt (get_prop neighborhood ''score'') \<or>
     truthy_opt (get_prop neighborhood ''neighborhood_score'')"

definition neighborhood_score :: "json \<Rightarrow> js_error + score_val" where
  "neighborhood_score neighborhood =
     (if truthy_opt (get_prop neighborhood ''score'')
      then Inr (ScoreJson (the (get_prop neighborhood ''score'')))
      else if truthy_opt (get_prop neighborhood ''neighborhood_score'')
      then Inr (ScoreJson (the (get_prop neighborhood ''neighborhood_score'')))
      else mean_score (score_operands neighborhood ! 0) (score_operands neighborhood ! 1)
                      (score_operands neighborhood ! 2))"

text \<open>The \<open>properties\<close> of the feature, given the score.\<close>

definition neighborhood_properties :: "nat \<Rightarrow> json \<Rightarrow> score_val \<Rightarrow> neighborhood_props" where
  "neighborhood_properties index neighborhood score =
     \<lparr> n_name =
         js_or (get_prop neighborhood ''name'')
           (js_or (get_prop neighborhood ''area_name'')
              (js_or (get_prop neighborhood ''neighborhood_name'')
                 (JStr (''Area '' @ string_of_nat (index + 1))))),
       n_businesses =
         js_or (get_prop neighborhood ''total_businesses'')
           (js_or (get_prop neighborhood ''businesses'')
              (js_or (get_prop neighborhood ''business_count'') (JNum 0))),
       n_rating =
         js_or (get_prop neighborhood ''avg_rating'')
           (js_or (get_prop neighborhood ''rating'') (JNum 0)),
       n_diversity =
         js_or (get_prop neighborhood ''service_diversity'')
           (js_or (get_prop neighborhood ''diversity'') (JNum 0)),
       n_score = score \<rparr>"

text \<open>
  The \<open>try\<close> body of the callback of \<open>data.map\<close>. The record itself is not guarded:
  reading \<open>neighborhood.geometry\<close> from \<open>null\<close> throws. After that the geometry is
  built, and then the properties with the score; the arithmetic of either may throw.
\<close>

definition neighborhood_try :: "nat \<Rightarrow> json \<Rightarrow> js_error + neighborhood_feature" where
  "neighborhood_try index neighborhood =
     (if neighborhood = JNull then Inl TypeError
      else (case neighborhood_coordinates index neighborhood of
              Inl e \<Rightarrow> Inl e
            | Inr coords \<Rightarrow>
                (case neighborhood_score neighborhood of
                   Inl e \<Rightarrow> Inl e
                 | Inr score \<Rightarrow>
                     Inr \<lparr> ngtype = Polygon, ncoordinates = coords,
                           nproperties = neighborhood_properties index neighborhood score \<rparr>)))"

text \<open>The callback with its \<open>catch\<close>, which returns \<open>null\<close>.\<close>

definition neighborhood_to_feature :: "nat \<Rightarrow> json \<Rightarrow> neighborhood_feature option" where
  "neighborhood_to_feature index neighborhood =
     (case neighborhood_try index neighborhood of
        Inl e \<Rightarrow> None
      | Inr feature \<Rightarrow> Some feature)"

text \<open>The literal table of \<open>createFallbackNeighborhoods\<close>.\<close>

record fallback_row =
  f_name :: string
  f_businesses :: rat
  f_rating :: rat
  f_diversity :: rat
  f_score :: rat
  f_lng :: rat
  f_lat :: rat

definition fallback_rows :: "fallback_row list" where
  "fallback_rows =
     [\<lparr> f_name = ''Hyde Park'', f_businesses = 87, f_rating = 43 / 10, f_diversity = 12,
        f_score = 78, f_lng = - 824633 / 10000, f_lat = 279380 / 10000 \<rparr>,
      \<lparr> f_name = ''Downtown Tampa'', f_businesses = 156, f_rating = 39 / 10, f_diversity = 18,
        f_score = 82, f_lng = - 824572 / 10000, f_lat = 279506 / 10000 \<rparr>,
      \<lparr> f_name = ''Ybor City'', f_businesses = 104, f_rating = 41 / 10, f_diversity = 15,
        f_score = 76, f_lng = - 824370 / 10000, f_lat = 279600 / 10000 \<rparr>,
      \<lparr> f_name = ''Westshore'', f_businesses = 121, f_rating = 38 / 10, f_diversity = 14,
        f_score = 70, f_lng = - 825250 / 10000, f_lat = 279530 / 10000 \<rparr>,
      \<lparr> f_name = ''Channelside'', f_businesses = 65, f_rating = 42 / 10, f_diversity = 10,
        f_score = 75, f_lng = - 824450 / 10000, f_lat = 279420 / 10000 \<rparr>,
      \<lparr> f_name = ''Seminole Heights'', f_businesses = 79, f_rating = 45 / 10, f_diversity = 11,
        f_score = 73, f_lng = - 824600 / 10000, f_lat = 279950 / 10000 \<rparr>,
      \<lparr> f_name = ''SoHo'', f_businesses = 93, f_rating = 44 / 10, f_diversity = 13,
        f_score = 80, f_lng = - 824820 / 10000, f_lat = 279310 / 10000 \<rparr>,
      \<lparr> f_name = ''Palma Ceia'', f_businesses = 58, f_rating = 42 / 10, f_diversity = 9,
        f_score = 74, f_lng = - 824910 / 10000, f_lat = 279210 / 10000 \<rparr>,
      \<lparr> f_name = ''Carrollwood'', f_businesses = 88, f_rating = 39 / 10, f_diversity = 12,
        f_score = 69, f_lng = - 825050 / 10000, f_lat = 280480 / 10000 \<rparr>,
      \<lparr> f_name = ''Brandon'', f_businesses = 110, f_rating = 37 / 10, f_diversity = 14,
        f_score = 65, f_lng = - 822860 / 10000, f_lat = 279370 / 10000 \<rparr>]"

definition fallback_feature :: "fallback_row \<Rightarrow> neighborhood_feature" where
  "fallback_feature row =
     \<lparr> ngtype = Polygon,
       ncoordinates =
         (let lng = f_lng row; lat = f_lat row; sz = 1 / 100
          in Ring [(CNum (lng - sz), CNum (lat - sz)),
                   (CNum (lng + sz), CNum (lat - sz)),
                   (CNum (lng + sz), CNum (lat + sz)),
                   (CNum (lng - sz), CNum (lat + sz)),
                   (CNum (lng - sz), CNum (lat - sz))]),
       nproperties = \<lparr> n_name = JStr (f_name row), n_businesses = JNum (f_businesses row),
          n_rating = JNum (f_rating row), n_diversity = JNum (f_diversity row),
          n_score = ScoreJson (JNum (f_score row)) \<rparr> \<rparr>"

definition createFallbackNeighborhoods :: "neighborhood_feature list" where
  "createFallbackNeighborhoods = map fallback_feature fallback_rows"

definition neighborhoods_body :: "fetch_outcome \<Rightarrow> js_error + neighborhood_feature list" where
  "neighborhoods_body out =
     (case out of
        Throws e \<Rightarrow> Inl e
      | Response data \<Rightarrow>
          (case data of
             JArr items \<Rightarrow>
               (if items = [] then Inr createFallbackNeighborhoods
                else (let features = map_filter_indexed neighborhood_to_feature items
                      in Inr (if length features > 0 then features
                              else createFallbackNeighborhoods)))
           | _ \<Rightarrow> Inr createFallbackNeighborhoods))"

definition getNeighborhoodMetrics ::
  "(request \<Rightarrow> fetch_outcome) \<Rightarrow> rat \<Rightarrow> js_error + neighborhood_feature list" where
  "getNeighborhoodMetrics net minScore =
     (case neighborhoods_body (net (NeighborhoodMetricsReq minScore)) of
        Inl e \<Rightarrow> Inr createFallbackNeighborhoods
      | Inr features \<Rightarrow> Inr features)"

section \<open>The map view: layer visibility\<close>

text \<open>
  The state of \<open>GeographicView\<close> once the layer controls are rendered, that is with
  \<open>isMapLoaded\<close> and \<open>showMap\<close> set: \<open>map.current\<close> holds the map, and its three
  sources and six visual layers were added by the load handler, so
  \<open>setLayoutProperty\<close> does not throw. A step is one task of the event loop (an
  event handler or a timer callback) or the commit that follows it: a task runs to
  completion, and the map paints between tasks, so the writes of one task are seen
  together.
\<close>

datatype layer_kind = Density | Clusters | Neighborhoods

datatype layer_id =
    DensityGridLayer
  | ClustersCircle
  | ClusterLabels
  | NeighborhoodsLayer
  | NeighborhoodsOutline
  | NeighborhoodsLabels

text \<open>
  \<open>visibility l\<close> holds when the layout property \<open>visibility\<close> of layer \<open>l\<close> is
  \<open>'visible'\<close>; \<open>layout_writes\<close> counts the calls of \<open>setLayoutProperty\<close> made
  since the controls appeared. Every
  pending transition timeout is kept, in firing order (all have the same delay), with
  the \<open>activeLayer\<close> that the \<open>forceRefreshSources\<close> of its closure captured.
  \<open>effect_deps\<close> are the values of \<open>activeLayer\<close> and \<open>isLayerTransitioning\<close> at
  the last run of the visibility effect.
\<close>

record view_state =
  activeLayer :: layer_kind
  isLayerTransitioning :: bool
  visibility :: "layer_id \<Rightarrow> bool"
  layout_writes :: nat
  timers :: "layer_kind list"
  effect_deps :: "layer_kind \<times> bool"

definition setLayoutProperty :: "layer_id \<Rightarrow> bool \<Rightarrow> view_state \<Rightarrow> view_state" where
  "setLayoutProperty l v s =
     s\<lparr> visibility := (visibility s)(l := v), layout_writes := Suc (layout_writes s) \<rparr>"

text \<open>
  The six writes shared by \<open>forceRefreshSources\<close> and the visibility effect, for the
  \<open>activeLayer\<close> value \<open>k\<close> the closure holds.
\<close>

definition show_only :: "layer_kind \<Rightarrow> view_state \<Rightarrow> view_state" where
  "show_only k s =
     setLayoutProperty NeighborhoodsLabels (k = Neighborhoods)
      (setLayoutProperty NeighborhoodsOutline (k = Neighborhoods)
        (setLayoutProperty NeighborhoodsLayer (k = Neighborhoods)
          (setLayoutProperty ClusterLabels (k = Clusters)
            (setLayoutProperty ClustersCircle (k = Clusters)
              (setLayoutProperty DensityGridLayer (k = Density) s)))))"

definition forceRefreshSources :: "layer_kind \<Rightarrow> view_state \<Rightarrow> view_state" where
  "forceRefreshSources k s = show_only k s"

text \<open>The branch of \<open>onChange\<close> that hides the layers of the current kind.\<close>

definition hide_current :: "layer_kind \<Rightarrow> view_state \<Rightarrow> view_state" where
  "hide_current k s =
     (case k of
        Density \<Rightarrow> setLayoutProperty DensityGridLayer False s
      | Clusters \<Rightarrow>
          setLayoutProperty ClusterLabels False (setLayoutProperty ClustersCircle False s)
      | Neighborhoods \<Rightarrow>
          setLayoutProperty NeighborhoodsLabels False
            (setLayoutProperty NeighborhoodsOutline False
              (setLayoutProperty NeighborhoodsLayer False s)))"

text \<open>
  \<open>MapLayerControls.onChange\<close>. The handler reads the \<open>activeLayer\<close> of the render
  it was created in, which is the current one, since React renders between two events.
  The timeout it sets calls the \<open>forceRefreshSources\<close> of that same render.
\<close>

definition onChange :: "layer_kind \<Rightarrow> view_state \<Rightarrow> view_state" where
  "onChange layer s =
     (if layer = activeLayer s then s
      else (hide_current (activeLayer s) (s\<lparr> isLayerTransitioning := True \<rparr>))
             \<lparr> activeLayer := layer, timers := timers s @ [activeLayer s] \<rparr>)"

text \<open>The callback of the oldest pending timeout.\<close>

definition timeout_fires :: "view_state \<Rightarrow> view_state" where
  "timeout_fires s =
     (case timers s of
        [] \<Rightarrow> s
      | k # rest \<Rightarrow> (forceRefreshSources k s)\<lparr> isLayerTransitioning := False, timers := rest \<rparr>)"

text \<open>
  The effect on \<open>[isMapLoaded, showMap, activeLayer, isLayerTransitioning]\<close>, and the
  commit that runs it when one of its dependencies changed.
\<close>

definition visibility_effect :: "view_state \<Rightarrow> view_state" where
  "visibility_effect s = (if isLayerTransitioning s then s else show_only (activeLayer s) s)"

definition commit :: "view_state \<Rightarrow> view_state" where
  "commit s =
     (if effect_deps s = (activeLayer s, isLayerTransitioning s) then s
      else (visibility_effect s)\<lparr> effect_deps := (activeLayer s, isLayerTransitioning s) \<rparr>)"

datatype event = SetActiveLayer layer_kind | TimeoutFires | RefreshClicked

definition handle :: "event \<Rightarrow> view_state \<Rightarrow> view_state" where
  "handle e s =
     (case e of
        SetActiveLayer layer \<Rightarrow> onChange layer s
      | TimeoutFires \<Rightarrow> timeout_fires s
      | RefreshClicked \<Rightarrow> forceRefreshSources (activeLayer s) s)"

definition step :: "event \<Rightarrow> view_state \<Rightarrow> view_state" where
  "step e s = commit (handle e s)"

definition run :: "event list \<Rightarrow> view_state \<Rightarrow> view_state" where
  "run es s = foldl (\<lambda>s e. step e s) s es"

text \<open>
  The view when the controls first appear: \<open>activeLayer\<close> still has its initial
  value, and the layers have the visibility they were added with.
\<close>

definition initial_view :: view_state where
  "initial_view =
     \<lparr> activeLayer = Density, isLayerTransitioning = False,
       visibility = (\<lambda>l. l = DensityGridLayer), layout_writes = 0,
       timers = [], effect_deps = (Density, False) \<rparr>"

fun layers_of :: "layer_kind \<Rightarrow> layer_id list" where
  "layers_of Density = [DensityGridLayer]"
| "layers_of Clusters = [ClustersCircle, ClusterLabels]"
| "layers_of Neighborhoods = [NeighborhoodsLayer, NeighborhoodsOutline, NeighborhoodsLabels]"

text \<open>A kind is visible when one of its visual layers is.\<close>

definition kind_visible :: "view_state \<Rightarrow> layer_kind \<Rightarrow> bool" where
  "kind_visible s k = list_ex (visibility s) (layers_of k)"

definition visible_kinds :: "view_state \<Rightarrow> layer_kind list" where
  "visible_kinds s = filter (kind_visible s) [Density, Clusters, Neighborhoods]"

section \<open>The map view: source updates\<close>

text \<open>
  The map as the source updates see it: whether \<open>map.current\<close> is set, and the data
  of every registered source (\<open>getSource\<close> returns \<open>undefined\<close> for the others). The
  load handler registers the three sources and only then sets \<open>map.current\<close>.
\<close>

record 'd map_instance =
  map_current :: bool
  sources :: "string \<Rightarrow> 'd option"

text \<open>
  The values of the React state that the closures of one render hold. The phases of the
  controller are read off them: below SourcesReady while \<open>isMapLoaded\<close> or
  \<open>mapSourcesReady\<close> is unset.
\<close>

record render =
  isMapLoaded :: bool
  mapSourcesReady :: bool
  transitioning :: bool
  isDensityLoading :: bool

text \<open>
  \<open>safelyUpdateMapSource\<close>, with \<open>setData\<close> on a registered source taken not to
  throw. It reads \<open>map.current\<close> when called and the two flags from its render.
\<close>

definition safelyUpdateMapSource ::
  "render \<Rightarrow> string \<Rightarrow> 'd \<Rightarrow> 'd map_instance \<Rightarrow> bool \<times> 'd map_instance" where
  "safelyUpdateMapSource r sourceName data m =
     (if \<not> map_current m \<or> \<not> isMapLoaded r \<or> \<not> mapSourcesReady r then (False, m)
      else (case sources m sourceName of
              Some old \<Rightarrow> (True, m\<lparr> sources := (sources m)(sourceName \<mapsto> data) \<rparr>)
            | None \<Rightarrow> (False, m)))"

text \<open>The filter of the density effect: a feature with an array of coordinates.\<close>

definition valid_density_feature :: "density_feature \<Rightarrow> bool" where
  "valid_density_feature feature \<longleftrightarrow>
     truthy (coordinates (dgeometry feature)) \<and> is_array (Some (coordinates (dgeometry feature)))"

text \<open>
  What the effect leaves behind: nothing, or the interval that retries the update of
  the collection, with the render its callback closes over.
\<close>

datatype retry = NoRetry | RetryScheduled render "density_feature list"

text \<open>
  The effect that handles density data updates, for \<open>densityData\<close> of the hook
  (\<open>None\<close> while it is \<open>undefined\<close>).
\<close>

definition density_update_effect ::
  "render \<Rightarrow> density_feature list option \<Rightarrow> density_feature list map_instance \<Rightarrow>
     density_feature list map_instance \<times> retry" where
  "density_update_effect r densityData m =
     (if \<not> isMapLoaded r \<or> \<not> mapSourcesReady r \<or> transitioning r \<or> isDensityLoading r
      then (m, NoRetry)
      else (case densityData of
              None \<Rightarrow> (snd (safelyUpdateMapSource r ''density-grid'' [] m), NoRetry)
            | Some features \<Rightarrow>
                (if features = []
                 then (snd (safelyUpdateMapSource r ''density-grid'' [] m), NoRetry)
                 else (let validFeatures = filter valid_density_feature features in
                       if validFeatures = [] then (m, NoRetry)
                       else (let (updated, m') =
                                   safelyUpdateMapSource r ''density-grid'' validFeatures m
                             in if updated then (m', NoRetry)
                                else (m', RetryScheduled r validFeatures))))))"

text \<open>
  One tick of the retry interval: the update is tried again, and \<open>True\<close> says that the
  interval cleared itself.
\<close>

definition retry_tick ::
  "render \<Rightarrow> density_feature list \<Rightarrow> density_feature list map_instance \<Rightarrow>
     bool \<times> density_feature list map_instance" where
  "retry_tick r featureCollection m =
     (if map_current m \<and> isMapLoaded r \<and> mapSourcesReady r \<and> \<not> transitioning r
      then safelyUpdateMapSource r ''density-grid'' featureCollection m
      else (False, m))"

text \<open>
  The interval ticks every 500 ms and a timeout clears it after 5000 ms, so at most
  \<open>max_retry_ticks\<close> ticks run. Between two ticks other tasks may change the map: the
  list holds, for each tick that comes due, what happened to the map before it. The
  result is the map after the last tick that ran, and the number of ticks that ran.
\<close>

definition max_retry_ticks :: nat where
  "max_retry_ticks = 5000 div 500"

fun retry_ticks ::
  "nat \<Rightarrow> render \<Rightarrow> density_feature list \<Rightarrow>
     (density_feature list map_instance \<Rightarrow> density_feature list map_instance) list \<Rightarrow>
     density_feature list map_instance \<Rightarrow> density_feature list map_instance \<times> nat" where
  "retry_ticks 0 r fc changes m = (m, 0)"
| "retry_ticks (Suc n) r fc [] m = (m, 0)"
| "retry_ticks (Suc n) r fc (change # changes) m =
     (let (success, m') = retry_tick r fc (change m) in
      if success then (m', 1)
      else (let (m'', ticks) = retry_ticks n r fc changes m' in (m'', Suc ticks)))"

section \<open>Predicates of the properties, and sample inputs\<close>

text \<open>
  A response the fetch functions cannot use as a whole: the request failed (network
  error, timeout, error status, unparsable body), or the body is not a non-empty array.
\<close>

fun no_usable_array :: "fetch_outcome \<Rightarrow> bool" where
  "no_usable_array (Throws e) = True"
| "no_usable_array (Response (JArr items)) = (items = [])"
| "no_usable_array (Response _) = True"

text \<open>Coordinates that are a pair of numbers.\<close>

fun is_number_pair :: "json \<Rightarrow> bool" where
  "is_number_pair (JArr [JNum x, JNum y]) = True"
| "is_number_pair _ = False"

text \<open>
  The shapes of a cluster centre that the normalisation recognises: a \<open>coordinates\<close>
  array, numeric \<open>x\<close> and \<open>y\<close>, numeric \<open>longitude\<close> and \<open>latitude\<close>, or an object
  of two properties with numeric values.
\<close>

definition recognized_shape :: "json \<Rightarrow> bool" where
  "recognized_shape center \<longleftrightarrow>
     is_array (get_prop center ''coordinates'') \<or>
     (is_number (get_prop center ''x'') \<and> is_number (get_prop center ''y'')) \<or>
     (is_number (get_prop center ''longitude'') \<and> is_number (get_prop center ''latitude'')) \<or>
     (is_object center \<and> length (object_keys center) = 2 \<and>
      is_number (get_prop center (object_keys center ! 0)) \<and>
      is_number (get_prop center (object_keys center ! 1)))"

text \<open>The well-formed density cell of the scenario in the specification.\<close>

definition sample_cell :: json where
  "sample_cell =
     JObj [(''grid_id'', JStr ''g1''),
           (''coordinates'', JObj [(''coordinates'',
              JArr [JArr [point (- 8245 / 100) (2795 / 100), point (- 8244 / 100) (2795 / 100),
                          point (- 8244 / 100) (2796 / 100), point (- 8245 / 100) (2796 / 100),
                          point (- 8245 / 100) (2795 / 100)]])]),
           (''metrics'', JObj [(''business_count'', JNum 10), (''avg_rating'', JNum (42 / 10)),
              (''service_diversity'', JNum 3), (''service_types'', JArr [JStr ''Restaurant''])])]"

text \<open>A cluster record that passes the structure check whenever its centre is truthy.\<close>

definition sample_cluster :: "string \<Rightarrow> rat \<Rightarrow> rat \<Rightarrow> json \<Rightarrow> json" where
  "sample_cluster cluster_id sz avg_rating center =
     JObj [(''cluster_id'', JStr cluster_id), (''size'', JNum sz), (''avg_rating'', JNum avg_rating),
           (''categories'', JArr [JStr ''Cafe'']), (''center'', center)]"

definition sample_clusters :: "json list" where
  "sample_clusters =
     [JNull,
      sample_cluster ''c1'' 12 4 (JObj [(''coordinates'', JArr [])]),
      sample_cluster [] 0 0 (JBool True)]"

definition sample_neighborhoods :: "json list" where
  "sample_neighborhoods = [JNull, JObj [], JNum 7]"

text \<open>A network that answers each endpoint with a partly malformed array.\<close>

definition sample_net :: "request \<Rightarrow> fetch_outcome" where
  "sample_net req =
     (case req of
        DensityGridReq m \<Rightarrow> Response (JArr [JNum 7, sample_cell])
      | BusinessClustersReq m \<Rightarrow> Response (JArr sample_clusters)
      | NeighborhoodMetricsReq m \<Rightarrow> Response (JArr sample_neighborhoods))"

text \<open>
  A network on which every request fails in its own way: a thrown error, an empty
  array, and a body that is not an array.
\<close>

definition failing_net :: "request \<Rightarrow> fetch_outcome" where
  "failing_net req =
     (case req of
        DensityGridReq m \<Rightarrow> Throws FetchError
      | BusinessClustersReq m \<Rightarrow> Response (JArr [])
      | NeighborhoodMetricsReq m \<Rightarrow> Response (JObj [(''detail'', JStr ''Not Found'')]))"

text \<open>
  The neighborhood records whose processing throws: \<open>null\<close>; a record whose polygon
  is built around a centre one of whose two coordinates does not convert to a
  primitive; and a record whose score is computed from a component score that does
  not convert.
\<close>

definition processing_throws :: "nat \<Rightarrow> json \<Rightarrow> bool" where
  "processing_throws index neighborhood \<longleftrightarrow>
     neighborhood = JNull \<or>
     (\<not> has_geometry neighborhood \<and> \<not> has_area_boundary neighborhood \<and>
      has_center neighborhood \<and>
      (\<not> coercible_opt (fst (center_point index (the_center neighborhood))) \<or>
       \<not> coercible_opt (snd (center_point index (the_center neighborhood))))) \<or>
     (\<not> has_score neighborhood \<and> \<not> list_all coercible (score_operands neighborhood))"

text \<open>A record whose only component score is an object with an own \<open>toString\<close>.\<close>

definition unconvertible_score :: json where
  "unconvertible_score = JObj [(''density_score'', JObj [(''toString'', JNum 1)])]"

text \<open>
  The invariant of the layer switch: at most one kind is visible, and exactly one when no transition
  timeout is pending.
\<close>

definition one_or_pending :: "view_state \<Rightarrow> bool" where
  "one_or_pending s \<longleftrightarrow>
     length (visible_kinds s) \<le> 1 \<and> (timers s = [] \<longrightarrow> length (visible_kinds s) = 1)"

text \<open>Two quick switches of the layer, and then both transition timeouts.\<close>

definition rapid_switches :: "event list" where
  "rapid_switches =
     [SetActiveLayer Clusters, SetActiveLayer Neighborhoods, TimeoutFires, TimeoutFires]"

text \<open>Renders and maps of the phases Initializing and SourcesReady.\<close>

definition initializing_render :: render where
  "initializing_render =
     \<lparr> isMapLoaded = False, mapSourcesReady = False, transitioning = False,
       isDensityLoading = False \<rparr>"

definition ready_render :: render where
  "ready_render =
     \<lparr> isMapLoaded = True, mapSourcesReady = True, transitioning = False,
       isDensityLoading = False \<rparr>"

definition unloaded_map :: "density_feature list map_instance" where
  "unloaded_map = \<lparr> map_current = False, sources = (\<lambda>name. None) \<rparr>"

definition loaded_map :: "density_feature list map_instance" where
  "loaded_map =
     \<lparr> map_current = True,
       sources = [''density-grid'' \<mapsto> [], ''business-clusters'' \<mapsto> [],
                  ''neighborhoods'' \<mapsto> []] \<rparr>"

text \<open>A map whose density source is not registered.\<close>

definition sourceless_map :: "density_feature list map_instance" where
  "sourceless_map = \<lparr> map_current = True, sources = (\<lambda>name. None) \<rparr>"

section \<open>Properties of the data access client\<close>

subsection \<open>Auxiliary facts\<close>

lemma map_filter_total:
  assumes "\<And>x. F x = Some (G x)"
  shows "List.map_filter F xs = map G xs"
  by (induction xs) (simp_all add: map_filter_simps assms)

lemma map_filter_cond:
  assumes "\<And>x. F x = (if P x then Some (G x) else None)"
  shows "List.map_filter F xs = map G (filter P xs)"
  by (induction xs) (simp_all add: map_filter_simps assms)

lemma map_filter_indexed_total:
  assumes "\<And>i x. f i x = Some (g i x)"
  shows "map_filter_indexed f items = map (\<lambda>(i, x). g i x) (enumerate 0 items)"
  unfolding map_filter_indexed_def
  by (rule map_filter_total) (simp add: assms split: prod.split)

lemma is_number_Some: "is_number v \<Longrightarrow> \<exists>n. v = Some (JNum n)"
  by (cases v rule: is_number.cases) simp_all

lemma is_array_Some: "is_array v \<Longrightarrow> \<exists>xs. v = Some (JArr xs)"
  by (cases v rule: is_array.cases) simp_all

lemma cluster_to_feature_Some:
  "cluster_to_feature i c = Some (the (cluster_to_feature i c))"
  by (simp add: cluster_to_feature_def)


lemma getBusinessClusters_array:
  assumes "net (BusinessClustersReq p) = Response (JArr items)"
  shows "getBusinessClusters net p =
    Inr (map (\<lambda>(i, x). the (cluster_to_feature i x)) (enumerate 0 items))"
  using assms map_filter_indexed_total [of cluster_to_feature, OF cluster_to_feature_Some]
  by (simp add: getBusinessClusters_def clusters_body_def)


lemma getBusinessClusters_nth:
  assumes "net (BusinessClustersReq p) = Response (JArr items)" and "i < length items"
  shows "\<exists>fs. getBusinessClusters net p = Inr fs \<and> length fs = length items \<and>
              fs ! i = the (cluster_to_feature i (items ! i))"
  using assms(2)
  by (simp add: getBusinessClusters_array [of net p items, OF assms(1)] nth_enumerate_eq)

lemma cluster_to_feature_accepted:
  assumes "cluster_hasExpectedStructure cluster"
  shows "the (cluster_to_feature index cluster) =
        \<lparr> cgeometry = \<lparr> gtype = Point,
             coordinates = center_coordinates (the (get_prop cluster ''center'')) \<rparr>,
          cproperties = \<lparr>
             c_id = js_or (get_prop cluster ''cluster_id'')
                      (JStr (''cluster-'' @ string_of_nat index)),
             c_size = js_or (get_prop cluster ''size'') (JNum 5),
             c_rating = js_or (get_prop cluster ''avg_rating'') (JNum 3),
             c_categories = js_or (get_prop cluster ''categories'') (JArr []) \<rparr> \<rparr>"
  using assms by (simp add: cluster_to_feature_def)

lemma sample_cluster_accepted:
  "cluster_hasExpectedStructure (sample_cluster cid sz r center) = truthy center"
  by (simp add: cluster_hasExpectedStructure_def get_prop_def sample_cluster_def)



lemma density_body_unusable:
  "no_usable_array out \<Longrightarrow> density_body out = Inr [] \<or> (\<exists>e. density_body out = Inl e)"
  by (cases out rule: no_usable_array.cases) (simp_all add: density_body_def)

lemma clusters_body_unusable:
  "no_usable_array out \<Longrightarrow> clusters_body out = Inr [] \<or> (\<exists>e. clusters_body out = Inl e)"
  by (cases out rule: no_usable_array.cases) (simp_all add: clusters_body_def)

lemma neighborhoods_body_unusable:
  "no_usable_array out \<Longrightarrow>
     neighborhoods_body out = Inr createFallbackNeighborhoods \<or>
     (\<exists>e. neighborhoods_body out = Inl e)"
  by (cases out rule: no_usable_array.cases) (simp_all add: neighborhoods_body_def)

lemma getDensityGrid_unusable:
  "no_usable_array (net (DensityGridReq p)) \<Longrightarrow> getDensityGrid net p = Inr []"
  using density_body_unusable [of "net (DensityGridReq p)"]
  by (auto simp: getDensityGrid_def)

lemma getBusinessClusters_unusable:
  "no_usable_array (net (BusinessClustersReq p)) \<Longrightarrow> getBusinessClusters net p = Inr []"
  using clusters_body_unusable [of "net (BusinessClustersReq p)"]
  by (auto simp: getBusinessClusters_def)

lemma getNeighborhoodMetrics_unusable:
  "no_usable_array (net (NeighborhoodMetricsReq p)) \<Longrightarrow>
     getNeighborhoodMetrics net p = Inr createFallbackNeighborhoods"
  using neighborhoods_body_unusable [of "net (NeighborhoodMetricsReq p)"]
  by (auto simp: getNeighborhoodMetrics_def)

lemma fallback_names:
  "map (\<lambda>f. n_name (nproperties f)) createFallbackNeighborhoods =
     [JStr ''Hyde Park'', JStr ''Downtown Tampa'', JStr ''Ybor City'', JStr ''Westshore'',
      JStr ''Channelside'', JStr ''Seminole Heights'', JStr ''SoHo'', JStr ''Palma Ceia'',
      JStr ''Carrollwood'', JStr ''Brandon'']"
  by (simp add: createFallbackNeighborhoods_def fallback_rows_def fallback_feature_def)

subsection \<open>Failures never reach the caller\<close>

text \<open>
  Claim C2. Whatever the network does and whatever the filter parameter is, each of
  \<open>getDensityGrid\<close>, \<open>getBusinessClusters\<close> and \<open>getNeighborhoodMetrics\<close> returns a
  feature list and raises nothing. When the request fails, or its body is not a
  non-empty array, the density and cluster functions return the empty list (so an empty
  array of clusters gives no features), and the neighborhood function returns the
  built-in list of ten named fallback neighborhoods.
\<close>

theorem fetch_never_raises:
  "(\<exists>fs. getDensityGrid net p = Inr fs) \<and>
   (\<exists>fs. getBusinessClusters net q = Inr fs) \<and>
   (\<exists>fs. getNeighborhoodMetrics net r = Inr fs) \<and>
   (no_usable_array (net (DensityGridReq p)) \<longrightarrow> getDensityGrid net p = Inr []) \<and>
   (no_usable_array (net (BusinessClustersReq q)) \<longrightarrow> getBusinessClusters net q = Inr []) \<and>
   (no_usable_array (net (NeighborhoodMetricsReq r)) \<longrightarrow>
      getNeighborhoodMetrics net r = Inr createFallbackNeighborhoods) \<and>
   map (\<lambda>f. n_name (nproperties f)) createFallbackNeighborhoods =
     [JStr ''Hyde Park'', JStr ''Downtown Tampa'', JStr ''Ybor City'', JStr ''Westshore'',
      JStr ''Channelside'', JStr ''Seminole Heights'', JStr ''SoHo'', JStr ''Palma Ceia'',
      JStr ''Carrollwood'', JStr ''Brandon'']"
proof (intro conjI impI)
  show "\<exists>fs. getDensityGrid net p = Inr fs"
    by (simp add: getDensityGrid_def split: sum.split)
  show "\<exists>fs. getBusinessClusters net q = Inr fs"
    by (simp add: getBusinessClusters_def split: sum.split)
  show "\<exists>fs. getNeighborhoodMetrics net r = Inr fs"
    by (simp add: getNeighborhoodMetrics_def split: sum.split)
qed (simp_all add: getDensityGrid_unusable getBusinessClusters_unusable
       getNeighborhoodMetrics_unusable fallback_names)

text \<open>
  The three functions on a network where one request throws, one returns the empty
  array and one returns an object.
\<close>

theorem fetch_never_raises_witness:
  "no_usable_array (failing_net (DensityGridReq 1)) \<and>
   no_usable_array (failing_net (BusinessClustersReq 5)) \<and>
   no_usable_array (failing_net (NeighborhoodMetricsReq 0)) \<and>
   getDensityGrid failing_net 1 = Inr [] \<and>
   getBusinessClusters failing_net 5 = Inr [] \<and>
   getNeighborhoodMetrics failing_net 0 = Inr createFallbackNeighborhoods \<and>
   length createFallbackNeighborhoods = 10"
proof -
  have h: "no_usable_array (failing_net (DensityGridReq 1))"
          "no_usable_array (failing_net (BusinessClustersReq 5))"
          "no_usable_array (failing_net (NeighborhoodMetricsReq 0))"
    by (simp_all add: failing_net_def)
  have n: "length createFallbackNeighborhoods = 10"
    by (simp add: createFallbackNeighborhoods_def fallback_rows_def)
  from fetch_never_raises [of failing_net 1 5 0] h n show ?thesis
    by simp
qed

subsection \<open>Malformed density and cluster records become placeholders\<close>



subsection \<open>Neighborhood records: which are dropped, and when the fallback is used\<close>

lemma isl_js_minus: "isl (js_minus v r) = (\<not> coercible_opt v)"
  by (cases "(v, r)" rule: js_minus.cases) simp_all

lemma isl_js_plus: "isl (js_plus v r) = (\<not> coercible_opt v)"
  by (cases "(v, r)" rule: js_plus.cases) simp_all

lemma isl_square_around:
  "isl (square_around p sz) = (\<not> coercible_opt (fst p) \<or> \<not> coercible_opt (snd p))"
  using isl_js_minus [of "fst p" sz] isl_js_minus [of "snd p" sz]
        isl_js_plus [of "fst p" sz] isl_js_plus [of "snd p" sz]
  by (auto simp: square_around_def split: sum.splits)

lemma isl_neighborhood_coordinates:
  "isl (neighborhood_coordinates index x) =
     (\<not> has_geometry x \<and> \<not> has_area_boundary x \<and> has_center x \<and>
      (\<not> coercible_opt (fst (center_point index (the_center x))) \<or>
       \<not> coercible_opt (snd (center_point index (the_center x)))))"
  by (simp add: neighborhood_coordinates_def isl_square_around Let_def)

lemma isl_neighborhood_score:
  "isl (neighborhood_score x) = (\<not> has_score x \<and> \<not> list_all coercible (score_operands x))"
  by (auto simp: neighborhood_score_def has_score_def mean_score_def score_operands_def)

lemma neighborhood_to_feature_None:
  "neighborhood_to_feature index x = None \<longleftrightarrow> processing_throws index x"
  using isl_neighborhood_coordinates [of index x] isl_neighborhood_score [of x]
  by (auto simp: neighborhood_to_feature_def neighborhood_try_def processing_throws_def
           split: sum.splits)

lemma neighborhood_to_feature_kept:
  assumes "\<not> processing_throws index x"
  shows "\<exists>f. neighborhood_to_feature index x = Some f \<and> ngtype f = Polygon \<and>
           n_name (nproperties f) =
             js_or (get_prop x ''name'')
               (js_or (get_prop x ''area_name'')
                  (js_or (get_prop x ''neighborhood_name'')
                     (JStr (''Area '' @ string_of_nat (index + 1)))))"
proof -
  from assms neighborhood_to_feature_None [of index x]
  obtain f where f: "neighborhood_to_feature index x = Some f" by auto
  then have "ngtype f = Polygon \<and>
           n_name (nproperties f) =
             js_or (get_prop x ''name'')
               (js_or (get_prop x ''area_name'')
                  (js_or (get_prop x ''neighborhood_name'')
                     (JStr (''Area '' @ string_of_nat (index + 1)))))"
    by (auto simp: neighborhood_to_feature_def neighborhood_try_def neighborhood_properties_def
             split: sum.splits if_splits)
  with f show ?thesis by simp
qed

lemma neighborhood_features:
  "map_filter_indexed neighborhood_to_feature items =
     map (\<lambda>(i, x). the (neighborhood_to_feature i x))
       (filter (\<lambda>(i, x). \<not> processing_throws i x) (enumerate 0 items))"
  unfolding map_filter_indexed_def
proof (rule map_filter_cond)
  fix ix :: "nat \<times> json"
  show "(case ix of (i, x) \<Rightarrow> neighborhood_to_feature i x) =
        (if (case ix of (i, x) \<Rightarrow> \<not> processing_throws i x)
         then Some (case ix of (i, x) \<Rightarrow> the (neighborhood_to_feature i x)) else None)"
    using neighborhood_to_feature_None [of "fst ix" "snd ix"]
    by (cases ix) auto
qed

lemma sample_throws:
  "processing_throws 0 JNull" "\<not> processing_throws 1 (JObj [])"
  "\<not> processing_throws 2 (JNum 7)" "processing_throws 0 unconvertible_score"
  by (simp_all add: processing_throws_def has_geometry_def has_area_boundary_def has_center_def
        has_score_def score_operands_def get_prop_def unconvertible_score_def)

lemma sample_neighborhoods_result:
  "getNeighborhoodMetrics sample_net 0 =
     Inr [the (neighborhood_to_feature 1 (JObj [])), the (neighborhood_to_feature 2 (JNum 7))]"
  using sample_throws
  by (simp add: getNeighborhoodMetrics_def neighborhoods_body_def neighborhood_features
        sample_net_def sample_neighborhoods_def enumerate_simps eval_nat_numeral)

text \<open>
  Claim C4 says that malformed neighborhood records are dropped. An empty object and a
  bare number have no name, no geometry and no metrics, yet both are kept: the
  response \<open>[null, {}, 7]\<close> gives two features, named \<open>Area 2\<close> and \<open>Area 3\<close> after
  their positions, and not the fallback list.
\<close>

theorem malformed_neighborhood_kept:
  "sample_net (NeighborhoodMetricsReq 0) = Response (JArr [JNull, JObj [], JNum 7]) \<and>
   (\<exists>fs. getNeighborhoodMetrics sample_net 0 = Inr fs \<and> length fs = 2 \<and>
      map (\<lambda>f. n_name (nproperties f)) fs = [JStr ''Area 2'', JStr ''Area 3''] \<and>
      fs \<noteq> createFallbackNeighborhoods)"
proof -
  let ?fs = "[the (neighborhood_to_feature 1 (JObj [])),
              the (neighborhood_to_feature 2 (JNum 7))]"
  have l: "length createFallbackNeighborhoods = 10"
    by (simp add: createFallbackNeighborhoods_def fallback_rows_def)
  have "map (\<lambda>f. n_name (nproperties f)) ?fs = [JStr ''Area 2'', JStr ''Area 3'']"
    by code_simp
  moreover have "?fs \<noteq> createFallbackNeighborhoods"
  proof
    assume "?fs = createFallbackNeighborhoods"
    then have "length ?fs = length createFallbackNeighborhoods"
      by (rule arg_cong)
    with l show False by simp
  qed
  ultimately show ?thesis
    by (simp add: sample_neighborhoods_result sample_net_def sample_neighborhoods_def)
qed

text \<open>
  Claim C4, amended. For a non-empty array response to a neighborhood-metrics fetch, a
  record is dropped exactly when its processing throws: the record is \<open>null\<close>, or a
  centre coordinate or a component score that the code does arithmetic on is an
  object that does not convert to a primitive. Every other record, however malformed,
  yields a Polygon feature in its place, with the name \<open>Area\<close> and its position where
  no name is given. The built-in fallback list is returned exactly when no record is
  left.
\<close>

theorem neighborhoods_kept_or_fallback:
  assumes "net (NeighborhoodMetricsReq p) = Response (JArr items)" and "items \<noteq> []"
  shows "getNeighborhoodMetrics net p =
     Inr (let kept = filter (\<lambda>(i, x). \<not> processing_throws i x) (enumerate 0 items)
          in if kept = [] then createFallbackNeighborhoods
             else map (\<lambda>(i, x). the (neighborhood_to_feature i x)) kept) \<and>
   (\<forall>i x. \<not> processing_throws i x \<longrightarrow>
      (\<exists>f. neighborhood_to_feature i x = Some f \<and> ngtype f = Polygon \<and>
         n_name (nproperties f) =
           js_or (get_prop x ''name'')
             (js_or (get_prop x ''area_name'')
                (js_or (get_prop x ''neighborhood_name'')
                   (JStr (''Area '' @ string_of_nat (i + 1)))))))"
  using assms neighborhood_to_feature_kept
  by (simp add: getNeighborhoodMetrics_def neighborhoods_body_def neighborhood_features Let_def)

text \<open>
  The response \<open>[null, {}, 7]\<close> again, and a response whose one record has a
  component score that does not convert: it is dropped, and the fallback list returned.
\<close>

theorem neighborhoods_kept_or_fallback_witness:
  "sample_net (NeighborhoodMetricsReq 0) = Response (JArr sample_neighborhoods) \<and>
   sample_neighborhoods \<noteq> [] \<and>
   processing_throws 0 JNull \<and> \<not> processing_throws 1 (JObj []) \<and>
   \<not> processing_throws 2 (JNum 7) \<and> processing_throws 0 unconvertible_score \<and>
   getNeighborhoodMetrics sample_net 0 =
     Inr [the (neighborhood_to_feature 1 (JObj [])), the (neighborhood_to_feature 2 (JNum 7))] \<and>
   getNeighborhoodMetrics (\<lambda>req. Response (JArr [unconvertible_score])) 0 =
     Inr createFallbackNeighborhoods"
proof -
  have h: "sample_net (NeighborhoodMetricsReq 0) = Response (JArr sample_neighborhoods)"
    by (simp add: sample_net_def)
  have ne: "sample_neighborhoods \<noteq> []"
    by (simp add: sample_neighborhoods_def)
  from neighborhoods_kept_or_fallback [of sample_net 0 sample_neighborhoods, OF h ne]
  have a: "getNeighborhoodMetrics sample_net 0 =
     Inr [the (neighborhood_to_feature 1 (JObj [])), the (neighborhood_to_feature 2 (JNum 7))]"
    using sample_throws
    by (simp add: sample_neighborhoods_def enumerate_simps eval_nat_numeral)
  from neighborhoods_kept_or_fallback
    [of "\<lambda>req. Response (JArr [unconvertible_score])" 0 "[unconvertible_score]"]
  have b: "getNeighborhoodMetrics (\<lambda>req. Response (JArr [unconvertible_score])) 0 =
     Inr createFallbackNeighborhoods"
    using sample_throws by (simp add: enumerate_simps)
  from h ne a b sample_throws show ?thesis by simp
qed

subsection \<open>The geometry of a cluster feature\<close>

lemma center_coordinates_cases:
  "(case get_prop center ''coordinates'' of
      Some (JArr xs) \<Rightarrow> center_coordinates center = JArr xs
    | _ \<Rightarrow> is_number_pair (center_coordinates center))"
proof (cases "is_array (get_prop center ''coordinates'')")
  case True
  then show ?thesis
    by (auto simp: center_coordinates_def dest!: is_array_Some)
next
  case False
  then have "is_number_pair (center_coordinates center)"
    by (auto simp: center_coordinates_def default_coordinates_def Let_def dest!: is_number_Some)
  with False show ?thesis
    by (auto split: option.split json.split)
qed

lemma center_coordinates_default:
  "\<not> recognized_shape center \<Longrightarrow> center_coordinates center = default_coordinates"
  by (auto simp: center_coordinates_def recognized_shape_def Let_def)

text \<open>
  Claim C9 says that the feature of every accepted cluster record has a pair of numbers
  as its coordinates. The record with \<open>center: {coordinates: []}\<close> passes the structure
  check, and its feature has the empty array as its coordinates.
\<close>

theorem cluster_coordinates_not_a_pair:
  "cluster_hasExpectedStructure (sample_clusters ! 1) \<and>
   (\<exists>fs. getBusinessClusters sample_net 5 = Inr fs \<and>
      coordinates (cgeometry (fs ! 1)) = JArr [] \<and>
      \<not> is_number_pair (coordinates (cgeometry (fs ! 1))))"
proof -
  have h: "sample_net (BusinessClustersReq 5) = Response (JArr sample_clusters)"
    by (simp add: sample_net_def)
  have a: "cluster_hasExpectedStructure (sample_clusters ! 1)"
    by (simp add: sample_clusters_def sample_cluster_accepted)
  from getBusinessClusters_nth [of sample_net 5 sample_clusters 1, OF h] obtain fs where
    fs: "getBusinessClusters sample_net 5 = Inr fs"
        "fs ! 1 = the (cluster_to_feature 1 (sample_clusters ! 1))"
    by (auto simp: sample_clusters_def)
  have "coordinates (cgeometry (fs ! 1)) = JArr []"
    unfolding fs(2) cluster_to_feature_accepted [OF a]
    by (simp add: sample_clusters_def sample_cluster_def get_prop_def center_coordinates_def)
  with a fs(1) show ?thesis by simp
qed

text \<open>
  Claim C9, amended. For every record that \<open>getBusinessClusters\<close> accepts as
  well-formed, the feature returned at its index has Point geometry. Its coordinates are
  the \<open>coordinates\<close> array of the centre as it is, whatever it holds, when the centre
  has one, and a pair of numbers otherwise; when the centre has none of the recognised
  shapes they are the fixed point [-82.45, 27.95]. The record is never dropped.
\<close>

theorem cluster_geometry:
  assumes "net (BusinessClustersReq p) = Response (JArr items)"
      and "i < length items"
      and "cluster_hasExpectedStructure (items ! i)"
      and "get_prop (items ! i) ''center'' = Some center"
  shows "\<exists>fs. getBusinessClusters net p = Inr fs \<and> length fs = length items \<and>
           gtype (cgeometry (fs ! i)) = Point \<and>
           (case get_prop center ''coordinates'' of
              Some (JArr xs) \<Rightarrow> coordinates (cgeometry (fs ! i)) = JArr xs
            | _ \<Rightarrow> is_number_pair (coordinates (cgeometry (fs ! i)))) \<and>
           (\<not> recognized_shape center \<longrightarrow>
              coordinates (cgeometry (fs ! i)) = default_coordinates)"
proof -
  from getBusinessClusters_nth [of net p items i, OF assms(1,2)] obtain fs where
    fs: "getBusinessClusters net p = Inr fs" "length fs = length items"
        "fs ! i = the (cluster_to_feature i (items ! i))"
    by blast
  have g: "gtype (cgeometry (fs ! i)) = Point"
    and c: "coordinates (cgeometry (fs ! i)) = center_coordinates center"
    by (simp_all add: fs(3) cluster_to_feature_accepted [OF assms(3)] assms(4))
  have "getBusinessClusters net p = Inr fs \<and> length fs = length items \<and>
           gtype (cgeometry (fs ! i)) = Point \<and>
           (case get_prop center ''coordinates'' of
              Some (JArr xs) \<Rightarrow> coordinates (cgeometry (fs ! i)) = JArr xs
            | _ \<Rightarrow> is_number_pair (coordinates (cgeometry (fs ! i)))) \<and>
           (\<not> recognized_shape center \<longrightarrow>
              coordinates (cgeometry (fs ! i)) = default_coordinates)"
    unfolding c
    using fs(1,2) g center_coordinates_cases [of center] center_coordinates_default [of center]
    by simp
  then show ?thesis by (rule exI)
qed

text \<open>The third sample record, whose centre is \<open>true\<close>, gets the fixed point.\<close>

theorem cluster_geometry_witness:
  "sample_net (BusinessClustersReq 5) = Response (JArr sample_clusters) \<and>
   2 < length sample_clusters \<and>
   cluster_hasExpectedStructure (sample_clusters ! 2) \<and>
   get_prop (sample_clusters ! 2) ''center'' = Some (JBool True) \<and>
   \<not> recognized_shape (JBool True) \<and>
   (\<exists>fs. getBusinessClusters sample_net 5 = Inr fs \<and> length fs = 3 \<and>
      gtype (cgeometry (fs ! 2)) = Point \<and>
      coordinates (cgeometry (fs ! 2)) = JArr [JNum (- 8245 / 100), JNum (2795 / 100)])"
proof -
  have h1: "sample_net (BusinessClustersReq 5) = Response (JArr sample_clusters)"
    by (simp add: sample_net_def)
  have h2: "2 < length sample_clusters"
    by (simp add: sample_clusters_def)
  have h3: "cluster_hasExpectedStructure (sample_clusters ! 2)"
    by (simp add: sample_clusters_def sample_cluster_accepted)
  have h4: "get_prop (sample_clusters ! 2) ''center'' = Some (JBool True)"
    by (simp add: sample_clusters_def sample_cluster_def get_prop_def)
  have h5: "\<not> recognized_shape (JBool True)"
    by (simp add: recognized_shape_def get_prop_def)
  from cluster_geometry [of sample_net 5 sample_clusters 2 "JBool True", OF h1 h2 h3 h4] h5
  obtain fs where
    "getBusinessClusters sample_net 5 = Inr fs" "length fs = length sample_clusters"
    "gtype (cgeometry (fs ! 2)) = Point"
    "coordinates (cgeometry (fs ! 2)) = default_coordinates"
    by blast
  then have "\<exists>fs. getBusinessClusters sample_net 5 = Inr fs \<and> length fs = 3 \<and>
      gtype (cgeometry (fs ! 2)) = Point \<and>
      coordinates (cgeometry (fs ! 2)) = JArr [JNum (- 8245 / 100), JNum (2795 / 100)]"
    by (simp add: sample_clusters_def default_coordinates_def)
  with h1 h2 h3 h4 h5 show ?thesis by simp
qed

subsection \<open>Falsy attributes of a cluster\<close>

lemma cluster_to_feature_nonzero:
  "c_size (cproperties (the (cluster_to_feature i c))) \<noteq> JNum 0 \<and>
   c_rating (cproperties (the (cluster_to_feature i c))) \<noteq> JNum 0"
proof (cases "cluster_hasExpectedStructure c")
  case False
  then show ?thesis by (simp add: cluster_to_feature_def cluster_placeholder_def)
next
  case True
  then obtain n m where
    "get_prop c ''size'' = Some (JNum n)" "get_prop c ''avg_rating'' = Some (JNum m)"
    unfolding cluster_hasExpectedStructure_def by (blast dest: is_number_Some)
  then show ?thesis
    by (simp add: cluster_to_feature_accepted [OF True])
qed

lemma getBusinessClusters_features:
  assumes "getBusinessClusters net p = Inr fs" and "f \<in> set fs"
  shows "\<exists>i c. f = the (cluster_to_feature i c)"
proof (cases "net (BusinessClustersReq p)")
  case (Throws e)
  with assms show ?thesis by (simp add: getBusinessClusters_def clusters_body_def)
next
  case (Response data)
  show ?thesis
  proof (cases "\<exists>items. data = JArr items")
    case True
    then obtain items where "data = JArr items" by blast
    with Response have "net (BusinessClustersReq p) = Response (JArr items)" by simp
    from getBusinessClusters_array [of net p items, OF this] assms show ?thesis
      by auto
  next
    case False
    with Response assms show ?thesis
      by (cases data) (simp_all add: getBusinessClusters_def clusters_body_def)
  qed
qed

text \<open>
  Claim C10. For every record that \<open>getBusinessClusters\<close> accepts as well-formed, a
  falsy attribute is replaced by a constant in the feature: a \<open>size\<close> of 0 gives size
  5, an \<open>avg_rating\<close> of 0 gives rating 3, and an empty \<open>cluster_id\<close> gives the id
  \<open>cluster-\<close> followed by the index. So no feature that \<open>getBusinessClusters\<close> ever
  returns has size 0 or rating 0.
\<close>

theorem cluster_falsy_defaults:
  assumes "net (BusinessClustersReq p) = Response (JArr items)"
      and "i < length items"
      and "cluster_hasExpectedStructure (items ! i)"
  shows "\<exists>fs. getBusinessClusters net p = Inr fs \<and> length fs = length items \<and>
           (get_prop (items ! i) ''size'' = Some (JNum 0) \<longrightarrow>
              c_size (cproperties (fs ! i)) = JNum 5) \<and>
           (get_prop (items ! i) ''avg_rating'' = Some (JNum 0) \<longrightarrow>
              c_rating (cproperties (fs ! i)) = JNum 3) \<and>
           (get_prop (items ! i) ''cluster_id'' = Some (JStr []) \<longrightarrow>
              c_id (cproperties (fs ! i)) = JStr (''cluster-'' @ string_of_nat i)) \<and>
           (\<forall>net' p' fs' f. getBusinessClusters net' p' = Inr fs' \<longrightarrow> f \<in> set fs' \<longrightarrow>
              c_size (cproperties f) \<noteq> JNum 0 \<and> c_rating (cproperties f) \<noteq> JNum 0)"
proof -
  from getBusinessClusters_nth [of net p items i, OF assms(1,2)] obtain fs where
    fs: "getBusinessClusters net p = Inr fs" "length fs = length items"
        "fs ! i = the (cluster_to_feature i (items ! i))"
    by blast
  have never: "\<forall>net' p' fs' f. getBusinessClusters net' p' = Inr fs' \<longrightarrow> f \<in> set fs' \<longrightarrow>
      c_size (cproperties f) \<noteq> JNum 0 \<and> c_rating (cproperties f) \<noteq> JNum 0"
    using getBusinessClusters_features cluster_to_feature_nonzero by blast
  show ?thesis
    using fs(1,2) never
    by (simp add: fs(3) cluster_to_feature_accepted [OF assms(3)])
qed

text \<open>The third sample record has size 0, rating 0 and an empty id.\<close>

theorem cluster_falsy_defaults_witness:
  "sample_net (BusinessClustersReq 5) = Response (JArr sample_clusters) \<and>
   2 < length sample_clusters \<and>
   cluster_hasExpectedStructure (sample_clusters ! 2) \<and>
   get_prop (sample_clusters ! 2) ''size'' = Some (JNum 0) \<and>
   get_prop (sample_clusters ! 2) ''avg_rating'' = Some (JNum 0) \<and>
   get_prop (sample_clusters ! 2) ''cluster_id'' = Some (JStr []) \<and>
   (\<exists>fs. getBusinessClusters sample_net 5 = Inr fs \<and>
      c_size (cproperties (fs ! 2)) = JNum 5 \<and>
      c_rating (cproperties (fs ! 2)) = JNum 3 \<and>
      c_id (cproperties (fs ! 2)) = JStr ''cluster-2'')"
proof -
  have h1: "sample_net (BusinessClustersReq 5) = Response (JArr sample_clusters)"
    by (simp add: sample_net_def)
  have h2: "2 < length sample_clusters"
    by (simp add: sample_clusters_def)
  have h3: "cluster_hasExpectedStructure (sample_clusters ! 2)"
    by (simp add: sample_clusters_def sample_cluster_accepted)
  have h4: "get_prop (sample_clusters ! 2) ''size'' = Some (JNum 0)"
           "get_prop (sample_clusters ! 2) ''avg_rating'' = Some (JNum 0)"
           "get_prop (sample_clusters ! 2) ''cluster_id'' = Some (JStr [])"
    by (simp_all add: sample_clusters_def sample_cluster_def get_prop_def)
  have n: "string_of_nat 2 = ''2''"
    by code_simp
  from cluster_falsy_defaults [of sample_net 5 sample_clusters 2, OF h1 h2 h3] h4 n
  obtain fs where
    "getBusinessClusters sample_net 5 = Inr fs"
    "c_size (cproperties (fs ! 2)) = JNum 5"
    "c_rating (cproperties (fs ! 2)) = JNum 3"
    "c_id (cproperties (fs ! 2)) = JStr ''cluster-2''"
    by auto
  then have "\<exists>fs. getBusinessClusters sample_net 5 = Inr fs \<and>
      c_size (cproperties (fs ! 2)) = JNum 5 \<and>
      c_rating (cproperties (fs ! 2)) = JNum 3 \<and>
      c_id (cproperties (fs ! 2)) = JStr ''cluster-2''"
    by blast
  with h1 h2 h3 h4 show ?thesis by simp
qed

section \<open>Properties of the layer switch\<close>

subsection \<open>Auxiliary facts\<close>

lemma visible_kinds_show_only: "visible_kinds (show_only k s) = [k]"
  by (cases k)
     (simp_all add: visible_kinds_def kind_visible_def show_only_def setLayoutProperty_def)

lemma hide_current_le:
  "length (visible_kinds s) \<le> 1 \<Longrightarrow> length (visible_kinds (hide_current k s)) \<le> 1"
  by (cases k)
     (auto simp: visible_kinds_def kind_visible_def hide_current_def setLayoutProperty_def
           split: if_splits)

lemma visible_kinds_updates [simp]:
  "visible_kinds (s\<lparr> effect_deps := d \<rparr>) = visible_kinds s"
  "visible_kinds (s\<lparr> isLayerTransitioning := b \<rparr>) = visible_kinds s"
  "visible_kinds (s\<lparr> timers := ts \<rparr>) = visible_kinds s"
  "visible_kinds (s\<lparr> activeLayer := k \<rparr>) = visible_kinds s"
  by (simp_all add: visible_kinds_def kind_visible_def)

lemma timers_show_only [simp]: "timers (show_only k s) = timers s"
  by (simp add: show_only_def setLayoutProperty_def)

lemma inv_initial: "one_or_pending initial_view"
  by (simp add: one_or_pending_def initial_view_def visible_kinds_def kind_visible_def)

lemma inv_onChange:
  assumes "one_or_pending s"
  shows "one_or_pending (onChange layer s)"
proof -
  from assms have "length (visible_kinds (s\<lparr> isLayerTransitioning := True \<rparr>)) \<le> 1"
    by (simp add: one_or_pending_def)
  from hide_current_le [OF this] assms show ?thesis
    by (simp add: onChange_def one_or_pending_def)
qed

lemma inv_forceRefresh: "one_or_pending (forceRefreshSources k s)"
  by (simp add: one_or_pending_def forceRefreshSources_def visible_kinds_show_only)

lemma inv_timeout:
  assumes "one_or_pending s"
  shows "one_or_pending (timeout_fires s)"
  using assms
  by (cases "timers s")
     (simp_all add: timeout_fires_def one_or_pending_def forceRefreshSources_def
        visible_kinds_show_only)

lemma inv_handle: "one_or_pending s \<Longrightarrow> one_or_pending (handle e s)"
  by (cases e) (simp_all add: handle_def inv_onChange inv_timeout inv_forceRefresh)

lemma inv_commit:
  assumes "one_or_pending s"
  shows "one_or_pending (commit s)"
  using assms
  by (simp add: commit_def visibility_effect_def one_or_pending_def visible_kinds_show_only)

lemma inv_run: "one_or_pending s \<Longrightarrow> one_or_pending (run es s)"
  unfolding run_def
  by (induction es arbitrary: s) (simp_all add: step_def inv_handle inv_commit)

lemma rapid_switches_result:
  "timers (run rapid_switches initial_view) = [] \<and>
   visible_kinds (run rapid_switches initial_view) = [Clusters] \<and>
   activeLayer (run rapid_switches initial_view) = Neighborhoods"
  by (simp add: rapid_switches_def run_def step_def handle_def commit_def onChange_def
        timeout_fires_def forceRefreshSources_def visibility_effect_def hide_current_def
        show_only_def setLayoutProperty_def initial_view_def visible_kinds_def
        kind_visible_def)

subsection \<open>One visible kind\<close>

text \<open>
  Claim C1. From the view in which the layer controls first appear, after any finite
  sequence of layer switches, timeouts and refreshes, at most one of the three kinds
  has a visible layer: after every task with its commit, and between a task and its
  commit. Once every transition timeout has fired, exactly one kind is visible.
\<close>

theorem one_kind_visible:
  "length (visible_kinds (run es initial_view)) \<le> 1 \<and>
   length (visible_kinds (handle e (run es initial_view))) \<le> 1 \<and>
   (timers (run es initial_view) = [] \<longrightarrow> length (visible_kinds (run es initial_view)) = 1)"
proof -
  have a: "one_or_pending (run es initial_view)"
    by (rule inv_run [OF inv_initial])
  from inv_handle [OF a] have "one_or_pending (handle e (run es initial_view))" .
  with a show ?thesis
    by (simp add: one_or_pending_def)
qed

text \<open>
  Two switches in quick succession, then both timeouts: the view is settled and one
  kind is visible.
\<close>

theorem one_kind_visible_witness:
  "timers (run rapid_switches initial_view) = [] \<and>
   length (visible_kinds (run rapid_switches initial_view)) = 1 \<and>
   length (visible_kinds (handle TimeoutFires (run rapid_switches initial_view))) \<le> 1"
  using one_kind_visible [of rapid_switches TimeoutFires] rapid_switches_result
  by simp

subsection \<open>Switching to the active layer\<close>

text \<open>
  Claim C8. A second \<open>setActiveLayer(k)\<close> right after a first one changes nothing:
  the handler returns at its guard, so the transition flag, the pending timeouts, the
  visibility of every layer and the count of layout writes are those the first call
  left, and the commit that follows runs no effect.
\<close>

theorem setActiveLayer_idempotent:
  "onChange k (step (SetActiveLayer k) s) = step (SetActiveLayer k) s \<and>
   step (SetActiveLayer k) (step (SetActiveLayer k) s) = step (SetActiveLayer k) s"
proof -
  have a: "activeLayer (step (SetActiveLayer k) s) = k"
    by (cases "activeLayer s")
       (simp_all add: step_def handle_def commit_def onChange_def visibility_effect_def
          show_only_def hide_current_def setLayoutProperty_def)
  have d: "effect_deps (commit t) = (activeLayer (commit t), isLayerTransitioning (commit t))"
    for t
    by (simp add: commit_def visibility_effect_def show_only_def setLayoutProperty_def)
  have o: "onChange k (step (SetActiveLayer k) s) = step (SetActiveLayer k) s"
    using a by (simp add: onChange_def)
  have "commit (step (SetActiveLayer k) s) = step (SetActiveLayer k) s"
    using d [of "handle (SetActiveLayer k) s"] by (simp add: step_def commit_def)
  with o show ?thesis
    by (simp add: step_def [of _ "step (SetActiveLayer k) s"] handle_def)
qed

text \<open>Switching from density to clusters twice: the second call writes nothing.\<close>

theorem setActiveLayer_idempotent_witness:
  "run [SetActiveLayer Clusters, SetActiveLayer Clusters] initial_view =
     run [SetActiveLayer Clusters] initial_view \<and>
   layout_writes (run [SetActiveLayer Clusters, SetActiveLayer Clusters] initial_view) = 1 \<and>
   timers (run [SetActiveLayer Clusters, SetActiveLayer Clusters] initial_view) = [Density]"
proof -
  have r: "run [SetActiveLayer Clusters, SetActiveLayer Clusters] initial_view =
     step (SetActiveLayer Clusters) (step (SetActiveLayer Clusters) initial_view)"
     "run [SetActiveLayer Clusters] initial_view = step (SetActiveLayer Clusters) initial_view"
    by (simp_all add: run_def)
  have v: "layout_writes (step (SetActiveLayer Clusters) initial_view) = 1"
          "timers (step (SetActiveLayer Clusters) initial_view) = [Density]"
    by (simp_all add: step_def handle_def commit_def onChange_def visibility_effect_def
          hide_current_def setLayoutProperty_def initial_view_def)
  from setActiveLayer_idempotent [of Clusters initial_view] r v show ?thesis
    by simp
qed

section \<open>Properties of the source updates\<close>

subsection \<open>Auxiliary facts\<close>

lemma safely_below:
  "\<not> isMapLoaded r \<or> \<not> mapSourcesReady r \<Longrightarrow>
     safelyUpdateMapSource r name data m = (False, m)"
  by (auto simp: safelyUpdateMapSource_def)

lemma effect_below:
  "\<not> isMapLoaded r \<or> \<not> mapSourcesReady r \<Longrightarrow> density_update_effect r d m = (m, NoRetry)"
  by (auto simp: density_update_effect_def)

lemma effect_ready:
  assumes "isMapLoaded r" "mapSourcesReady r" "\<not> transitioning r" "\<not> isDensityLoading r"
    "map_current m" "sources m ''density-grid'' \<noteq> None"
    "filter valid_density_feature fs \<noteq> []"
  shows "density_update_effect r (Some fs) m =
    (m\<lparr> sources := (sources m)(''density-grid'' \<mapsto> filter valid_density_feature fs) \<rparr>,
     NoRetry)"
  using assms by (auto simp: density_update_effect_def safelyUpdateMapSource_def Let_def)

lemma safely_False_unchanged:
  "safelyUpdateMapSource r name data m = (False, m') \<Longrightarrow> m' = m"
  by (auto simp: safelyUpdateMapSource_def split: if_splits option.splits)

lemma effect_retry:
  assumes "density_update_effect r d m = (m', RetryScheduled r' fc)"
  shows "m' = m \<and> r' = r \<and> isMapLoaded r \<and> mapSourcesReady r \<and> \<not> transitioning r \<and>
     safelyUpdateMapSource r ''density-grid'' fc m = (False, m)"
proof -
  from assms have ready: "isMapLoaded r" "mapSourcesReady r" "\<not> transitioning r"
    by (auto simp: density_update_effect_def split: if_splits)
  from assms ready obtain fs where
    d: "d = Some fs" "fs \<noteq> []" "filter valid_density_feature fs \<noteq> []"
    by (auto simp: density_update_effect_def Let_def split: if_splits option.splits)
  obtain u m1 where
    u: "safelyUpdateMapSource r ''density-grid'' (filter valid_density_feature fs) m = (u, m1)"
    by (cases "safelyUpdateMapSource r ''density-grid'' (filter valid_density_feature fs) m")
  from assms ready d u have "\<not> u" "m' = m1" "r' = r" "fc = filter valid_density_feature fs"
    by (auto simp: density_update_effect_def Let_def split: if_splits)
  with u safely_False_unchanged [of r "''density-grid''" fc m m1] ready show ?thesis
    by simp
qed

lemma retry_ticks_bound: "snd (retry_ticks n r fc changes m) \<le> n"
proof (induction n r fc changes m rule: retry_ticks.induct)
  case (3 n r fc change changes m)
  then show ?case
    by (auto simp: Let_def split: prod.splits)
qed simp_all

lemma retry_ticks_idle:
  assumes "safelyUpdateMapSource r ''density-grid'' fc m = (False, m)"
  shows "retry_ticks n r fc (replicate k id) m = (m, min n k)"
  using assms
proof (induction n arbitrary: k)
  case 0
  then show ?case by simp
next
  case (Suc n)
  then show ?case
    by (cases k) (auto simp: retry_tick_def Let_def)
qed

lemma placeholder_valid: "valid_density_feature (density_placeholder i)"
  by (simp add: valid_density_feature_def density_placeholder_def Let_def)

lemma sourceless_retry:
  "density_update_effect ready_render (Some [density_placeholder 0]) sourceless_map =
     (sourceless_map, RetryScheduled ready_render [density_placeholder 0])"
  by (simp add: density_update_effect_def safelyUpdateMapSource_def ready_render_def
        sourceless_map_def placeholder_valid)

subsection \<open>Updates before the sources are ready\<close>

text \<open>
  Claim C5 says that a source update made below SourcesReady returns a retry-scheduled
  status. In the phase Initializing, \<open>safelyUpdateMapSource\<close> returns \<open>false\<close> and the
  density effect returns at its guard: the map is unchanged and no retry is scheduled.
\<close>

theorem no_retry_below_ready:
  "\<not> isMapLoaded initializing_render \<and>
   safelyUpdateMapSource initializing_render ''density-grid'' [density_placeholder 0]
     unloaded_map = (False, unloaded_map) \<and>
   density_update_effect initializing_render (Some [density_placeholder 0]) unloaded_map =
     (unloaded_map, NoRetry)"
  by (simp add: initializing_render_def safelyUpdateMapSource_def density_update_effect_def)

text \<open>
  Claim C5, amended. A source update made while the render is below SourcesReady does
  not raise and does not change the map: \<open>safelyUpdateMapSource\<close> returns \<open>false\<close>,
  and the density effect returns without scheduling a retry. The update is made by
  the effect of a later render whose flags are set (the flags are among its
  dependencies), provided no transition or load is in progress and the source is
  registered. A retry is scheduled only by a render whose flags are set and whose update
  failed all the same; it leaves the map as it was, runs at most 10 ticks (5000 ms in
  steps of 500 ms), and when nothing changes the map it ends after those ticks with the
  map unchanged.
\<close>

theorem source_update_below_ready:
  "(\<not> isMapLoaded r1 \<or> \<not> mapSourcesReady r1 \<longrightarrow>
      safelyUpdateMapSource r1 name features m1 = (False, m1) \<and>
      density_update_effect r1 densityData m1 = (m1, NoRetry)) \<and>
   (isMapLoaded r2 \<and> mapSourcesReady r2 \<and> \<not> transitioning r2 \<and> \<not> isDensityLoading r2 \<and>
    map_current m2 \<and> sources m2 ''density-grid'' \<noteq> None \<and>
    filter valid_density_feature features \<noteq> [] \<longrightarrow>
      density_update_effect r2 (Some features) m2 =
        (m2\<lparr> sources :=
               (sources m2)(''density-grid'' \<mapsto> filter valid_density_feature features) \<rparr>,
         NoRetry)) \<and>
   (density_update_effect r3 densityData m3 = (m', RetryScheduled r' fc) \<longrightarrow>
      m' = m3 \<and> r' = r3 \<and> isMapLoaded r3 \<and> mapSourcesReady r3 \<and>
      snd (retry_ticks max_retry_ticks r' fc changes m') \<le> 10 \<and>
      retry_ticks max_retry_ticks r' fc (replicate k id) m' = (m', min 10 k))"
proof (intro conjI impI)
  assume a: "density_update_effect r3 densityData m3 = (m', RetryScheduled r' fc)"
  note e = effect_retry [OF a]
  from e show "m' = m3" "r' = r3" "isMapLoaded r3" "mapSourcesReady r3" by simp_all
  from retry_ticks_bound [of max_retry_ticks r' fc changes m']
  show "snd (retry_ticks max_retry_ticks r' fc changes m') \<le> 10"
    by (simp add: max_retry_ticks_def)
  from e have "safelyUpdateMapSource r' ''density-grid'' fc m' = (False, m')" by simp
  from retry_ticks_idle [OF this, of max_retry_ticks k]
  show "retry_ticks max_retry_ticks r' fc (replicate k id) m' = (m', min 10 k)"
    by (simp add: max_retry_ticks_def)
qed (simp_all add: safely_below effect_below effect_ready)

text \<open>
  An update in the phase Initializing, the same update in a ready render on the loaded
  map, and a ready render on a map without the source, whose retry gives up after ten
  of twelve idle ticks.
\<close>

theorem source_update_below_ready_witness:
  "\<not> isMapLoaded initializing_render \<and>
   safelyUpdateMapSource initializing_render ''density-grid'' [density_placeholder 0]
     unloaded_map = (False, unloaded_map) \<and>
   density_update_effect initializing_render (Some [density_placeholder 0]) unloaded_map =
     (unloaded_map, NoRetry) \<and>
   density_update_effect ready_render (Some [density_placeholder 0]) loaded_map =
     (loaded_map\<lparr> sources :=
         (sources loaded_map)(''density-grid'' \<mapsto> [density_placeholder 0]) \<rparr>, NoRetry) \<and>
   density_update_effect ready_render (Some [density_placeholder 0]) sourceless_map =
     (sourceless_map, RetryScheduled ready_render [density_placeholder 0]) \<and>
   retry_ticks max_retry_ticks ready_render [density_placeholder 0] (replicate 12 id)
     sourceless_map = (sourceless_map, 10)"
proof -
  have h1: "\<not> isMapLoaded initializing_render"
    by (simp add: initializing_render_def)
  have h2: "isMapLoaded ready_render \<and> mapSourcesReady ready_render \<and>
      \<not> transitioning ready_render \<and> \<not> isDensityLoading ready_render \<and>
      map_current loaded_map \<and> sources loaded_map ''density-grid'' \<noteq> None \<and>
      filter valid_density_feature [density_placeholder 0] \<noteq> []"
    by (simp add: ready_render_def loaded_map_def placeholder_valid)
  have f: "filter valid_density_feature [density_placeholder 0] = [density_placeholder 0]"
    by (simp add: placeholder_valid)
  note t = source_update_below_ready
    [of initializing_render "''density-grid''" "[density_placeholder 0]" unloaded_map
        "Some [density_placeholder 0]" ready_render loaded_map ready_render sourceless_map
        sourceless_map ready_render "[density_placeholder 0]" "[]" 12]
  from t h1 h2 f sourceless_retry show ?thesis
    by simp
qed

end
